theory Spec2Isabelle
  imports Main "HOL-Library.Word"
begin

section \<open>Triple-buffer display driver (triplebuffer.c)\<close>

text \<open>
  A shallow embedding of \<^verbatim>\<open>src/triplebuffer.c\<close>. The driver keeps three frame
  buffers in PSRAM and three global pointers to them (\<^verbatim>\<open>work_buf\<close>,
  \<^verbatim>\<open>front_buf\<close>, \<^verbatim>\<open>back_buf\<close>). The claims depend on which pointer names which
  buffer, so memory is an explicit store: a byte at every address, and a table of the
  blocks the allocator has handed out. A pointer is an address; 0 is \<^verbatim>\<open>NULL\<close>.
  Logging (\<^verbatim>\<open>ESP_LOGx\<close>) has no effect on the state and is left out.
\<close>

subsection \<open>Configuration (lines 37-41)\<close>

type_synonym byte = "8 word"
type_synonym addr = nat

definition DISP_WIDTH :: nat where
  "DISP_WIDTH = 720"

definition DISP_HEIGHT :: nat where
  "DISP_HEIGHT = 720"

definition DISP_BPP :: nat where
  "DISP_BPP = 2"

definition FB_SIZE :: nat where
  "FB_SIZE = DISP_WIDTH * DISP_HEIGHT * DISP_BPP"

definition FB_ALIGN :: nat where
  "FB_ALIGN = 64"

text \<open>
  \<^verbatim>\<open>esp_err_t\<close> is ESP-IDF's \<^verbatim>\<open>int\<close> status code; the two values the driver
  uses are \<^verbatim>\<open>ESP_OK\<close> (0) and \<^verbatim>\<open>ESP_ERR_NO_MEM\<close> (0x101).
\<close>

type_synonym esp_err_t = int

definition ESP_OK :: esp_err_t where
  "ESP_OK = 0"

definition ESP_ERR_NO_MEM :: esp_err_t where
  "ESP_ERR_NO_MEM = 0x101"

subsection \<open>State (lines 48-62)\<close>

text \<open>
  \<open>mem\<close> is the byte store, \<open>allocated\<close> maps the base address of every block
  obtained from the allocator to its size. \<open>s_copy_done_sem\<close> is the state of the
  binary semaphore behind the handle of that name: \<open>True\<close> when it holds its token.
  \<open>panel_fb\<close> is the frame-buffer address last handed to
  \<^verbatim>\<open>esp_lcd_panel_draw_bitmap\<close>, and \<open>flush_ready_calls\<close> counts the calls of
  \<^verbatim>\<open>lv_disp_flush_ready\<close>.
\<close>

record state =
  mem :: "addr \<Rightarrow> byte"
  allocated :: "addr \<rightharpoonup> nat"
  work_buf :: addr
  front_buf :: addr
  back_buf :: addr
  s_copy_done_sem :: bool
  s_copy_in_progress :: bool
  panel_fb :: addr
  flush_ready_calls :: nat

text \<open>
  A call either returns, or has undefined behaviour in C (an access outside the block its
  pointer belongs to, an overlapping \<^verbatim>\<open>memcpy\<close>, a signed overflow), or never
  returns (a task blocked on a semaphore that is never given).
\<close>

datatype fault = Invalid_pointer | Out_of_bounds | Overlapping_copy | Signed_overflow

datatype 'a outcome = Fault fault | Blocked | Returns 'a

definition and_then :: "'a outcome \<Rightarrow> ('a \<Rightarrow> 'b outcome) \<Rightarrow> 'b outcome" where
  "and_then r f = (case r of Fault e \<Rightarrow> Fault e | Blocked \<Rightarrow> Blocked | Returns x \<Rightarrow> f x)"

subsection \<open>The C library's memory functions\<close>

text \<open>
  \<^verbatim>\<open>memcpy(dst, src, n)\<close> between two blocks of the store, and
  \<^verbatim>\<open>memset(dst, c, n)\<close>. Both pointers are base addresses of allocated blocks here,
  as at every call of the driver that passes a buffer pointer unchanged.
\<close>

definition memcpy :: "addr \<Rightarrow> addr \<Rightarrow> nat \<Rightarrow> state \<Rightarrow> state outcome" where
  "memcpy dst src n s =
     (case allocated s dst of
        None \<Rightarrow> Fault Invalid_pointer
      | Some dsz \<Rightarrow>
          (case allocated s src of
             None \<Rightarrow> Fault Invalid_pointer
           | Some ssz \<Rightarrow>
               if dsz < n \<or> ssz < n then Fault Out_of_bounds
               else if 0 < n \<and> dst < src + n \<and> src < dst + n then Fault Overlapping_copy
               else Returns (s\<lparr>mem :=
                      (\<lambda>a. if dst \<le> a \<and> a < dst + n then mem s (src + (a - dst))
                           else mem s a)\<rparr>)))"

definition memset :: "addr \<Rightarrow> byte \<Rightarrow> nat \<Rightarrow> state \<Rightarrow> state outcome" where
  "memset dst c n s =
     (case allocated s dst of
        None \<Rightarrow> Fault Invalid_pointer
      | Some dsz \<Rightarrow>
          if dsz < n then Fault Out_of_bounds
          else Returns (s\<lparr>mem := (\<lambda>a. if dst \<le> a \<and> a < dst + n then c else mem s a)\<rparr>))"

text \<open>
  The \<^verbatim>\<open>memcpy\<close> of line 163 copies \<open>n\<close> bytes of the tile LVGL hands in to a
  place inside a block: \<open>base\<close> is the block's base address, \<open>off\<close> the byte offset
  of the destination pointer from it, \<open>tile\<close> the bytes of the array \<^verbatim>\<open>color_map\<close>
  points to and \<open>soff\<close> the byte offset of the source pointer into it. The tile is
  LVGL's own render buffer, apart from the three frame buffers, and is only read.
\<close>

definition memcpy_row :: "addr \<Rightarrow> int \<Rightarrow> byte list \<Rightarrow> nat \<Rightarrow> nat \<Rightarrow> state \<Rightarrow> state outcome" where
  "memcpy_row base off tile soff n s =
     (case allocated s base of
        None \<Rightarrow> Fault Invalid_pointer
      | Some sz \<Rightarrow>
          if off < 0 \<or> int sz < off + int n \<or> length tile < soff + n then Fault Out_of_bounds
          else Returns (s\<lparr>mem :=
                 (\<lambda>a. if base + nat off \<le> a \<and> a < base + nat off + n
                      then tile ! (soff + (a - (base + nat off)))
                      else mem s a)\<rparr>))"

subsection \<open>GDMA copy (lines 71-114)\<close>

text \<open>\<^verbatim>\<open>gdma_copy_done_cb\<close>: the completion callback gives the semaphore.\<close>

definition gdma_copy_done_cb :: "state \<Rightarrow> state" where
  "gdma_copy_done_cb s = s\<lparr>s_copy_done_sem := True\<rparr>"

text \<open>
  Modelled from the spec: the copy engine behind \<^verbatim>\<open>esp_async_memcpy\<close> (ESP-IDF, not
  part of the driver). Section 4.3: a submission that is accepted copies \<open>length\<close> bytes
  from \<open>src\<close> to \<open>dst\<close> and invokes the completion callback once, when the copy
  finishes. Whether the engine ever finishes is an input, \<open>dma_done\<close>; the status the
  submission returns is an input of \<open>gdma_copy_buffer\<close> below. The transfer and the
  callback happen while the task waits, so the model runs them before the wait.
\<close>

definition dma_transfer :: "bool \<Rightarrow> addr \<Rightarrow> addr \<Rightarrow> nat \<Rightarrow> state \<Rightarrow> state outcome" where
  "dma_transfer dma_done dst src len s =
     (if dma_done then and_then (memcpy dst src len s) (\<lambda>s'. Returns (gdma_copy_done_cb s'))
      else Returns s)"

text \<open>
  \<^verbatim>\<open>xSemaphoreTake(s_copy_done_sem, portMAX_DELAY)\<close>: takes the token, or waits for
  ever when there is none.
\<close>

definition xSemaphoreTake :: "state \<Rightarrow> state outcome" where
  "xSemaphoreTake s = (if s_copy_done_sem s then Returns (s\<lparr>s_copy_done_sem := False\<rparr>) else Blocked)"

text \<open>
  \<^verbatim>\<open>gdma_copy_buffer(dst, src, len)\<close>; \<open>ret\<close> is the status
  \<^verbatim>\<open>esp_async_memcpy\<close> returns.
\<close>

definition gdma_copy_buffer :: "esp_err_t \<Rightarrow> bool \<Rightarrow> addr \<Rightarrow> addr \<Rightarrow> nat \<Rightarrow> state \<Rightarrow> state outcome" where
  "gdma_copy_buffer ret dma_done dst src len s =
     (let s1 = s\<lparr>s_copy_in_progress := True\<rparr> in
      if ret \<noteq> ESP_OK then
        and_then (memcpy dst src len s1) (\<lambda>s2. Returns (s2\<lparr>s_copy_in_progress := False\<rparr>))
      else
        and_then (dma_transfer dma_done dst src len s1) (\<lambda>s2.
        and_then (xSemaphoreTake s2) (\<lambda>s3.
        Returns (s3\<lparr>s_copy_in_progress := False\<rparr>))))"

subsection \<open>Buffer swap (lines 124-133)\<close>

text \<open>
  \<^verbatim>\<open>esp_lcd_panel_draw_bitmap(s_panel_handle, 0, 0, DISP_WIDTH, DISP_HEIGHT, fb)\<close>
  tells the panel which buffer to scan out; its status is ignored by the driver.
\<close>

definition esp_lcd_panel_draw_bitmap :: "addr \<Rightarrow> state \<Rightarrow> state" where
  "esp_lcd_panel_draw_bitmap fb s = s\<lparr>panel_fb := fb\<rparr>"

definition swap_buffers :: "state \<Rightarrow> state" where
  "swap_buffers s =
     (let tmp = front_buf s;
          s1 = s\<lparr>front_buf := back_buf s\<rparr>;
          s2 = s1\<lparr>back_buf := tmp\<rparr>
      in esp_lcd_panel_draw_bitmap (front_buf s2) s2)"

subsection \<open>LVGL flush callback (lines 149-173)\<close>

text \<open>
  \<^verbatim>\<open>lv_area_t\<close>: the inclusive corners of a tile. The coordinates are
  \<^verbatim>\<open>lv_coord_t\<close>, which is \<^verbatim>\<open>int16_t\<close> in LVGL 8 as configured by default.
\<close>

record lv_area_t =
  x1 :: "16 word"
  y1 :: "16 word"
  x2 :: "16 word"
  y2 :: "16 word"

text \<open>The values of C's 32-bit \<^verbatim>\<open>int\<close>; arithmetic that leaves them is undefined.\<close>

definition int_range :: "int \<Rightarrow> bool" where
  "int_range k \<longleftrightarrow> - (2 ^ 31) \<le> k \<and> k < 2 ^ 31"

text \<open>
  The body of the row loop (lines 160-163). \<open>y * w\<close> is unsigned 32-bit arithmetic,
  \<open>(area->y1 + y) * DISP_WIDTH + area->x1\<close> is \<^verbatim>\<open>int\<close> arithmetic, and both
  pointers are \<^verbatim>\<open>uint16_t *\<close>, so an index counts two bytes. \<open>w * sizeof(uint16_t)\<close>
  is computed in the 32-bit \<^verbatim>\<open>size_t\<close> of the target.
\<close>

definition flush_row :: "lv_area_t \<Rightarrow> byte list \<Rightarrow> 32 word \<Rightarrow> nat \<Rightarrow> state \<Rightarrow> state outcome" where
  "flush_row area color_map w y s =
     (let src = unat (word_of_nat y * w);
          row = sint (y1 area) + int y;
          dst = row * int DISP_WIDTH + sint (x1 area)
      in if int_range row \<and> int_range (row * int DISP_WIDTH) \<and> int_range dst
         then memcpy_row (work_buf s) (2 * dst) color_map (2 * src) (unat (w * 2)) s
         else Fault Signed_overflow)"

text \<open>
  The loop \<^verbatim>\<open>for (int y = 0; y < h; y++)\<close>. The counter is an \<^verbatim>\<open>int\<close> that
  starts at 0 and only grows, so it is a natural number below \<open>2 ^ 31\<close>, and the
  comparison with the unsigned \<open>h\<close> compares the numbers.
\<close>

function flush_rows :: "lv_area_t \<Rightarrow> byte list \<Rightarrow> 32 word \<Rightarrow> 32 word \<Rightarrow> nat \<Rightarrow> state \<Rightarrow> state outcome" where
  "flush_rows area color_map w h y s =
     (if y < unat h then
        (case flush_row area color_map w y s of
           Fault e \<Rightarrow> Fault e
         | Blocked \<Rightarrow> Blocked
         | Returns s' \<Rightarrow>
             if y + 1 < 2 ^ 31 then flush_rows area color_map w h (y + 1) s'
             else Fault Signed_overflow)
      else Returns s)"
  by pat_completeness auto
termination
  by (relation "measure (\<lambda>(area, color_map, w, h, y, s). unat h - y)") auto

declare flush_rows.simps [simp del]

text \<open>
  The block run for the last flush of a frame (lines 167-169): copy Work to Back, then
  swap. \<open>ret\<close> and \<open>dma_done\<close> are the copy engine's answers.
\<close>

definition finalize_frame :: "esp_err_t \<Rightarrow> bool \<Rightarrow> state \<Rightarrow> state outcome" where
  "finalize_frame ret dma_done s =
     and_then (gdma_copy_buffer ret dma_done (back_buf s) (work_buf s) FB_SIZE s) (\<lambda>s'.
     Returns (swap_buffers s'))"

text \<open>\<^verbatim>\<open>lv_disp_flush_ready(drv)\<close>: the acknowledgement LVGL waits for.\<close>

definition lv_disp_flush_ready :: "state \<Rightarrow> state" where
  "lv_disp_flush_ready s = s\<lparr>flush_ready_calls := flush_ready_calls s + 1\<rparr>"

text \<open>
  \<^verbatim>\<open>lvgl_flush_cb(drv, area, color_map)\<close>. \<open>is_last\<close> is what
  \<^verbatim>\<open>lv_disp_flush_is_last(drv)\<close> answers.
\<close>

definition lvgl_flush_cb :: "lv_area_t \<Rightarrow> byte list \<Rightarrow> bool \<Rightarrow> esp_err_t \<Rightarrow> bool \<Rightarrow> state \<Rightarrow> state outcome" where
  "lvgl_flush_cb area color_map is_last ret dma_done s =
     (let w = word_of_int (sint (x2 area) - sint (x1 area) + 1) :: 32 word;
          h = word_of_int (sint (y2 area) - sint (y1 area) + 1) :: 32 word
      in and_then (flush_rows area color_map w h 0 s) (\<lambda>s1.
         and_then (if is_last then finalize_frame ret dma_done s1 else Returns s1) (\<lambda>s2.
         Returns (lv_disp_flush_ready s2))))"

subsection \<open>Buffer allocation (lines 190-211)\<close>

text \<open>
  Modelled from the spec: the allocator behind \<^verbatim>\<open>heap_caps_aligned_alloc\<close> (ESP-IDF,
  not part of the driver). Section 6: \<open>alloc(size, alignment, memoryClass)\<close> gives a
  pointer or fails. The answer is an input, \<open>reply\<close>: 0 when the request fails, else the
  address of the new block, which is entered into the allocation table with its size. The
  bytes of a new block are whatever the store holds there.
\<close>

definition heap_caps_aligned_alloc :: "nat \<Rightarrow> nat \<Rightarrow> addr \<Rightarrow> state \<Rightarrow> addr \<times> state" where
  "heap_caps_aligned_alloc alignment sz reply s =
     (if reply = 0 then (0, s)
      else (reply, s\<lparr>allocated := (allocated s)(reply \<mapsto> sz)\<rparr>))"

text \<open>
  \<^verbatim>\<open>allocate_buffers()\<close>; \<open>r0\<close>, \<open>r1\<close> and \<open>r2\<close> are the allocator's answers to
  the first, second and third request.
\<close>

definition allocate_buffers :: "addr \<Rightarrow> addr \<Rightarrow> addr \<Rightarrow> state \<Rightarrow> (esp_err_t \<times> state) outcome" where
  "allocate_buffers r0 r1 r2 s =
     (let (p0, a0) = heap_caps_aligned_alloc FB_ALIGN FB_SIZE r0 s;
          s0 = a0\<lparr>work_buf := p0\<rparr>;
          (p1, a1) = heap_caps_aligned_alloc FB_ALIGN FB_SIZE r1 s0;
          s1 = a1\<lparr>front_buf := p1\<rparr>;
          (p2, a2) = heap_caps_aligned_alloc FB_ALIGN FB_SIZE r2 s1;
          s2 = a2\<lparr>back_buf := p2\<rparr>
      in if work_buf s2 = 0 \<or> front_buf s2 = 0 \<or> back_buf s2 = 0
         then Returns (ESP_ERR_NO_MEM, s2)
         else and_then (memset (work_buf s2) 0 FB_SIZE s2) (\<lambda>s3.
              and_then (memset (front_buf s3) 0 FB_SIZE s3) (\<lambda>s4.
              and_then (memset (back_buf s4) 0 FB_SIZE s4) (\<lambda>s5.
              Returns (ESP_OK, s5)))))"

subsection \<open>Frame pacing (lines 329-330)\<close>

text \<open>
  The delay \<^verbatim>\<open>lvgl_task\<close> computes from \<^verbatim>\<open>time_till_next\<close>, the value
  \<^verbatim>\<open>lv_timer_handler\<close> returned, both \<^verbatim>\<open>uint32_t\<close> milliseconds.
\<close>

definition lvgl_task_delay :: "32 word \<Rightarrow> 32 word" where
  "lvgl_task_delay time_till_next =
     (if time_till_next < 1 then 1
      else if time_till_next > 10 then 10
      else time_till_next)"

subsection \<open>Well-formed buffer states\<close>

text \<open>
  The state the driver runs in after a successful start-up: each of the three pointers is
  the base of an allocated block of \<open>FB_SIZE\<close> bytes, and the three blocks do not
  overlap.
\<close>

definition fb_disjoint :: "addr \<Rightarrow> addr \<Rightarrow> bool" where
  "fb_disjoint p q \<longleftrightarrow> p + FB_SIZE \<le> q \<or> q + FB_SIZE \<le> p"

definition buffers_ok :: "state \<Rightarrow> bool" where
  "buffers_ok s \<longleftrightarrow>
     allocated s (work_buf s) = Some FB_SIZE \<and>
     allocated s (front_buf s) = Some FB_SIZE \<and>
     allocated s (back_buf s) = Some FB_SIZE \<and>
     fb_disjoint (work_buf s) (back_buf s) \<and>
     fb_disjoint (work_buf s) (front_buf s) \<and>
     fb_disjoint (back_buf s) (front_buf s)"

subsection \<open>Tiles and pixels\<close>

text \<open>
  A tile lies inside the display when its corners are ordered and within
  \<open>DISP_WIDTH\<close> by \<open>DISP_HEIGHT\<close>. Its origin, width and height are read off the
  corners as the callback does (lines 155-156), and \<open>row_offset area r\<close> is the byte
  offset of the tile's row \<open>r\<close> in a frame buffer.
\<close>

definition area_in_bounds :: "lv_area_t \<Rightarrow> bool" where
  "area_in_bounds area \<longleftrightarrow>
     0 \<le> sint (x1 area) \<and> sint (x1 area) \<le> sint (x2 area) \<and> sint (x2 area) < int DISP_WIDTH \<and>
     0 \<le> sint (y1 area) \<and> sint (y1 area) \<le> sint (y2 area) \<and> sint (y2 area) < int DISP_HEIGHT"

definition tile_x :: "lv_area_t \<Rightarrow> nat" where
  "tile_x area = nat (sint (x1 area))"

definition tile_y :: "lv_area_t \<Rightarrow> nat" where
  "tile_y area = nat (sint (y1 area))"

definition tile_width :: "lv_area_t \<Rightarrow> nat" where
  "tile_width area = nat (sint (x2 area) - sint (x1 area) + 1)"

definition tile_height :: "lv_area_t \<Rightarrow> nat" where
  "tile_height area = nat (sint (y2 area) - sint (y1 area) + 1)"

definition row_offset :: "lv_area_t \<Rightarrow> nat \<Rightarrow> nat" where
  "row_offset area r = ((tile_y area + r) * DISP_WIDTH + tile_x area) * 2"

text \<open>
  The RGB565 pixel at \<open>row\<close>, \<open>col\<close> of the frame buffer at \<open>fb\<close>: two bytes, low
  byte first on the little-endian target.
\<close>

definition fb_pixel :: "state \<Rightarrow> addr \<Rightarrow> nat \<Rightarrow> nat \<Rightarrow> 16 word" where
  "fb_pixel s fb row col =
     (let a = fb + (row * DISP_WIDTH + col) * DISP_BPP
      in word_cat (mem s (a + 1)) (mem s a))"

subsection \<open>Example states and tiles\<close>

text \<open>
  Three block addresses in the PSRAM window of the ESP32-S3, one megabyte apart, and the
  state at start-up: the three pointers are \<^verbatim>\<open>NULL\<close> (lines 48-50), nothing is
  allocated, the semaphore is empty and the store holds the byte \<open>0xA5\<close> everywhere.
\<close>

definition buf0 :: addr where
  "buf0 = 0x3C000000"

definition buf1 :: addr where
  "buf1 = 0x3C100000"

definition buf2 :: addr where
  "buf2 = 0x3C200000"

definition boot_state :: state where
  "boot_state =
     \<lparr>mem = (\<lambda>a. 0xA5), allocated = Map.empty, work_buf = 0, front_buf = 0, back_buf = 0,
      s_copy_done_sem = False, s_copy_in_progress = False, panel_fb = 0,
      flush_ready_calls = 0\<rparr>"

text \<open>
  A running state: the three blocks are allocated with the roles \<open>allocate_buffers\<close>
  gives them, the Work buffer holds the byte \<open>0x11\<close> everywhere and the rest of the
  store is zero.
\<close>

definition ready_state :: state where
  "ready_state =
     \<lparr>mem = (\<lambda>a. if buf0 \<le> a \<and> a < buf0 + FB_SIZE then 0x11 else 0),
      allocated = [buf0 \<mapsto> FB_SIZE, buf1 \<mapsto> FB_SIZE, buf2 \<mapsto> FB_SIZE],
      work_buf = buf0, front_buf = buf1, back_buf = buf2,
      s_copy_done_sem = False, s_copy_in_progress = False, panel_fb = buf1,
      flush_ready_calls = 0\<rparr>"

text \<open>
  A 2 by 2 tile at (10, 10) and a 2 by 1 tile whose last pixel is the last pixel of the
  display.
\<close>

definition small_tile :: lv_area_t where
  "small_tile = \<lparr>x1 = 10, y1 = 10, x2 = 11, y2 = 11\<rparr>"

definition corner_tile :: lv_area_t where
  "corner_tile = \<lparr>x1 = 718, y1 = 719, x2 = 719, y2 = 719\<rparr>"

section \<open>Properties\<close>

lemma and_then_Returns [simp]: "and_then (Returns x) f = f x"
  by (simp add: and_then_def)

lemmas fb_size_defs = FB_SIZE_def DISP_WIDTH_def DISP_HEIGHT_def DISP_BPP_def

lemmas buf_defs = buf0_def buf1_def buf2_def

subsection \<open>Swap and pacing\<close>

text \<open>
  C2. For every role assignment, after one call of \<open>swap_buffers\<close> the new Front pointer
  is the old Back pointer, the new Back pointer is the old Front pointer and the Work
  pointer is unchanged; the store is untouched (no buffer data is copied), and the panel
  is given the new Front address.
\<close>

theorem swap_buffers_permutes_roles:
  "front_buf (swap_buffers s) = back_buf s \<and>
   back_buf (swap_buffers s) = front_buf s \<and>
   work_buf (swap_buffers s) = work_buf s \<and>
   mem (swap_buffers s) = mem s \<and>
   allocated (swap_buffers s) = allocated s \<and>
   panel_fb (swap_buffers s) = back_buf s"
  by (simp add: swap_buffers_def esp_lcd_panel_draw_bitmap_def)

text \<open>
  C9. For every delay \<open>d\<close> suggested by the tick function, the delay the task asks for
  is \<open>min (max d 1) 10\<close> milliseconds: \<open>d\<close> clamped to the interval from 1 to 10.
\<close>

theorem lvgl_task_delay_clamps:
  "lvgl_task_delay d = min (max d 1) 10 \<and> 1 \<le> lvgl_task_delay d \<and> lvgl_task_delay d \<le> 10"
  unfolding lvgl_task_delay_def min_def max_def
  by (auto simp: not_less; unat_arith)

subsection \<open>Allocation\<close>

text \<open>
  C5, as the code has it. If any of the three requests fails, \<open>allocate_buffers\<close>
  returns \<open>ESP_ERR_NO_MEM\<close>. Nothing is released: every block that was obtained is
  still allocated, the three pointers hold the allocator's three answers, and the store
  is untouched (no buffer is cleared).
\<close>

theorem allocate_buffers_failure_keeps_blocks:
  assumes "r0 = 0 \<or> r1 = 0 \<or> r2 = 0"
  shows "\<exists>s'. allocate_buffers r0 r1 r2 s = Returns (ESP_ERR_NO_MEM, s') \<and>
           work_buf s' = r0 \<and> front_buf s' = r1 \<and> back_buf s' = r2 \<and>
           mem s' = mem s \<and>
           dom (allocated s') = dom (allocated s) \<union> ({r0, r1, r2} - {0}) \<and>
           (\<forall>r \<in> {r0, r1, r2} - {0}. allocated s' r = Some FB_SIZE)"
  using assms
  by (auto simp add: allocate_buffers_def heap_caps_aligned_alloc_def Let_def)

theorem allocate_buffers_failure_keeps_blocks_witness:
  "(buf0 = 0 \<or> buf1 = 0 \<or> (0::addr) = 0) \<and>
   (\<exists>s'. allocate_buffers buf0 buf1 0 boot_state = Returns (ESP_ERR_NO_MEM, s') \<and>
      work_buf s' = buf0 \<and> front_buf s' = buf1 \<and> back_buf s' = 0 \<and>
      mem s' = mem boot_state \<and> dom (allocated s') = {buf0, buf1})"
proof -
  have h: "buf0 = 0 \<or> buf1 = 0 \<or> (0::addr) = 0"
    by simp
  from allocate_buffers_failure_keeps_blocks [OF h, of boot_state]
  obtain s' where r: "allocate_buffers buf0 buf1 0 boot_state = Returns (ESP_ERR_NO_MEM, s')"
    and p: "work_buf s' = buf0" "front_buf s' = buf1" "back_buf s' = 0" "mem s' = mem boot_state"
    and d: "dom (allocated s') = dom (allocated boot_state) \<union> ({buf0, buf1, 0} - {0})"
    by blast
  have "dom (allocated boot_state) \<union> ({buf0, buf1, 0} - {0}) = {buf0, buf1}"
    by (auto simp add: boot_state_def buf_defs)
  with d have "dom (allocated s') = {buf0, buf1}"
    by simp
  with h r p show ?thesis
    by blast
qed

text \<open>
  C5 as stated fails: with the third request refused, the error is returned while the
  first two blocks, which were not allocated before the call, are allocated after it.
\<close>

theorem allocate_buffers_release_counterexample:
  "\<exists>s'. allocate_buffers buf0 buf1 0 boot_state = Returns (ESP_ERR_NO_MEM, s') \<and>
     allocated boot_state buf0 = None \<and> allocated boot_state buf1 = None \<and>
     allocated s' buf0 = Some FB_SIZE \<and> allocated s' buf1 = Some FB_SIZE"
  by (simp add: allocate_buffers_def heap_caps_aligned_alloc_def buf_defs boot_state_def Let_def)

text \<open>
  C6, as the code has it. When all three requests succeed, \<open>allocate_buffers\<close> returns
  \<open>ESP_OK\<close>, each block has \<open>FB_SIZE\<close> bytes and every one of them is zero, and the
  roles are: Work is the first block obtained, Front the second, Back the third.
\<close>

theorem allocate_buffers_success_roles:
  assumes "r0 \<noteq> 0" and "r1 \<noteq> 0" and "r2 \<noteq> 0"
  shows "\<exists>s'. allocate_buffers r0 r1 r2 s = Returns (ESP_OK, s') \<and>
           work_buf s' = r0 \<and> front_buf s' = r1 \<and> back_buf s' = r2 \<and>
           allocated s' r0 = Some FB_SIZE \<and> allocated s' r1 = Some FB_SIZE \<and>
           allocated s' r2 = Some FB_SIZE \<and>
           (\<forall>i<FB_SIZE. mem s' (r0 + i) = 0 \<and> mem s' (r1 + i) = 0 \<and> mem s' (r2 + i) = 0)"
  using assms
  by (simp add: allocate_buffers_def heap_caps_aligned_alloc_def memset_def Let_def)

theorem allocate_buffers_success_roles_witness:
  "buf0 \<noteq> 0 \<and> buf1 \<noteq> 0 \<and> buf2 \<noteq> 0 \<and> mem boot_state (buf0 + 7) = 0xA5 \<and>
   (\<exists>s'. allocate_buffers buf0 buf1 buf2 boot_state = Returns (ESP_OK, s') \<and>
      work_buf s' = buf0 \<and> front_buf s' = buf1 \<and> back_buf s' = buf2 \<and>
      mem s' (buf0 + 7) = 0 \<and> mem s' (buf1 + 7) = 0 \<and> mem s' (buf2 + 1036799) = 0)"
proof -
  have nz: "buf0 \<noteq> 0" "buf1 \<noteq> 0" "buf2 \<noteq> 0"
    by (simp_all add: buf_defs)
  from allocate_buffers_success_roles [OF nz, of boot_state]
  obtain s' where r: "allocate_buffers buf0 buf1 buf2 boot_state = Returns (ESP_OK, s')"
    and p: "work_buf s' = buf0" "front_buf s' = buf1" "back_buf s' = buf2"
    and z: "\<forall>i<FB_SIZE. mem s' (buf0 + i) = 0 \<and> mem s' (buf1 + i) = 0 \<and> mem s' (buf2 + i) = 0"
    by blast
  have "(7::nat) < FB_SIZE" and "(1036799::nat) < FB_SIZE"
    by (simp_all add: fb_size_defs)
  with z have "mem s' (buf0 + 7) = 0" "mem s' (buf1 + 7) = 0" "mem s' (buf2 + 1036799) = 0"
    by blast+
  moreover have "mem boot_state (buf0 + 7) = 0xA5"
    by (simp add: boot_state_def)
  ultimately show ?thesis
    using nz r p by blast
qed

text \<open>
  C6 as stated fails in its role assignment: the block obtained second becomes Front, not
  Back, and the block obtained third becomes Back, not Front.
\<close>

theorem allocate_buffers_roles_counterexample:
  "\<exists>s'. allocate_buffers buf0 buf1 buf2 boot_state = Returns (ESP_OK, s') \<and>
     front_buf s' = buf1 \<and> back_buf s' = buf2 \<and> back_buf s' \<noteq> buf1 \<and> front_buf s' \<noteq> buf2"
  by (simp add: allocate_buffers_def heap_caps_aligned_alloc_def buf_defs boot_state_def
      memset_def fb_size_defs Let_def)

subsection \<open>Copy and finalize\<close>

lemma buffers_ok_ready_state: "buffers_ok ready_state"
  by (simp add: buffers_ok_def fb_disjoint_def ready_state_def buf_defs fb_size_defs)

lemma memcpy_ok:
  assumes "allocated s dst = Some dsz" and "allocated s src = Some ssz"
    and "len \<le> dsz" and "len \<le> ssz" and "dst + len \<le> src \<or> src + len \<le> dst"
  shows "memcpy dst src len s =
           Returns (s\<lparr>mem := (\<lambda>a. if dst \<le> a \<and> a < dst + len then mem s (src + (a - dst))
                                else mem s a)\<rparr>)"
  using assms by (auto simp add: memcpy_def)

text \<open>
  What \<open>gdma_copy_buffer\<close> returns when the buffers are valid and the engine either
  refuses the job or finishes it.
\<close>

lemma gdma_copy_buffer_ok:
  assumes "allocated s dst = Some dsz" and "allocated s src = Some ssz"
    and "len \<le> dsz" and "len \<le> ssz" and "dst + len \<le> src \<or> src + len \<le> dst"
    and "ret \<noteq> ESP_OK \<or> dma_done"
  shows "gdma_copy_buffer ret dma_done dst src len s =
           Returns (s\<lparr>mem := (\<lambda>a. if dst \<le> a \<and> a < dst + len then mem s (src + (a - dst))
                                else mem s a),
                      s_copy_done_sem := (if ret \<noteq> ESP_OK then s_copy_done_sem s else False),
                      s_copy_in_progress := False\<rparr>)"
proof -
  let ?s1 = "s\<lparr>s_copy_in_progress := True\<rparr>"
  have m: "memcpy dst src len ?s1 =
      Returns (?s1\<lparr>mem := (\<lambda>a. if dst \<le> a \<and> a < dst + len then mem ?s1 (src + (a - dst))
                                else mem ?s1 a)\<rparr>)"
    using assms(1-5) memcpy_ok [of ?s1 dst dsz src ssz len] by simp
  show ?thesis
    using assms(6)
    by (cases "ret = ESP_OK")
      (auto simp add: gdma_copy_buffer_def Let_def m dma_transfer_def xSemaphoreTake_def
        gdma_copy_done_cb_def intro!: state.equality)
qed

lemma finalize_frame_ok:
  assumes "buffers_ok s" and "ret \<noteq> ESP_OK \<or> dma_done"
  shows "finalize_frame ret dma_done s =
           Returns (s\<lparr>mem := (\<lambda>a. if back_buf s \<le> a \<and> a < back_buf s + FB_SIZE
                                then mem s (work_buf s + (a - back_buf s)) else mem s a),
                      s_copy_done_sem := (if ret \<noteq> ESP_OK then s_copy_done_sem s else False),
                      s_copy_in_progress := False,
                      front_buf := back_buf s, back_buf := front_buf s,
                      panel_fb := back_buf s\<rparr>)"
proof -
  have d: "back_buf s + FB_SIZE \<le> work_buf s \<or> work_buf s + FB_SIZE \<le> back_buf s"
    using assms(1) by (auto simp add: buffers_ok_def fb_disjoint_def)
  have "gdma_copy_buffer ret dma_done (back_buf s) (work_buf s) FB_SIZE s =
     Returns (s\<lparr>mem := (\<lambda>a. if back_buf s \<le> a \<and> a < back_buf s + FB_SIZE
                                then mem s (work_buf s + (a - back_buf s)) else mem s a),
                      s_copy_done_sem := (if ret \<noteq> ESP_OK then s_copy_done_sem s else False),
                      s_copy_in_progress := False\<rparr>)"
    using assms d
      gdma_copy_buffer_ok [of s "back_buf s" FB_SIZE "work_buf s" FB_SIZE FB_SIZE ret dma_done]
    by (simp add: buffers_ok_def)
  then show ?thesis
    by (simp add: finalize_frame_def swap_buffers_def esp_lcd_panel_draw_bitmap_def Let_def)
qed

text \<open>
  C4. For every copy request between two valid, non-overlapping buffers: when the
  submission to the copy engine fails (\<open>ret\<close> is not \<open>ESP_OK\<close>),
  \<open>gdma_copy_buffer\<close> returns, whatever the engine does afterwards; the destination
  then holds the source's bytes and nothing else in the store has changed; the semaphore
  was not touched (the task did not wait on it); and the caller sees no trace of the
  failure: when the semaphore was empty before the call, the state is the very state a
  completed asynchronous copy leaves.
\<close>

theorem gdma_copy_buffer_fallback:
  assumes "ret \<noteq> ESP_OK"
    and "allocated s dst = Some dsz" and "allocated s src = Some ssz"
    and "len \<le> dsz" and "len \<le> ssz" and "dst + len \<le> src \<or> src + len \<le> dst"
  shows "\<exists>s'. gdma_copy_buffer ret dma_done dst src len s = Returns s' \<and>
           (\<forall>i<len. mem s' (dst + i) = mem s (src + i)) \<and>
           (\<forall>a. a < dst \<or> dst + len \<le> a \<longrightarrow> mem s' a = mem s a) \<and>
           s_copy_done_sem s' = s_copy_done_sem s \<and>
           \<not> s_copy_in_progress s' \<and>
           (\<not> s_copy_done_sem s \<longrightarrow>
              gdma_copy_buffer ESP_OK True dst src len s = Returns s')"
proof -
  have a: "ret \<noteq> ESP_OK \<or> dma_done" and b: "ESP_OK \<noteq> ESP_OK \<or> True"
    using assms(1) by simp_all
  show ?thesis
    using assms(1)
    by (simp add: gdma_copy_buffer_ok [OF assms(2-6) a] gdma_copy_buffer_ok [OF assms(2-6) b])
qed

theorem gdma_copy_buffer_fallback_witness:
  "ESP_ERR_NO_MEM \<noteq> ESP_OK \<and>
   allocated ready_state buf2 = Some FB_SIZE \<and> allocated ready_state buf0 = Some FB_SIZE \<and>
   (buf2 + FB_SIZE \<le> buf0 \<or> buf0 + FB_SIZE \<le> buf2) \<and>
   mem ready_state (buf2 + 3) = 0 \<and>
   (\<exists>s'. gdma_copy_buffer ESP_ERR_NO_MEM False buf2 buf0 FB_SIZE ready_state = Returns s' \<and>
      mem s' (buf2 + 3) = 0x11 \<and> \<not> s_copy_done_sem s' \<and> \<not> s_copy_in_progress s' \<and>
      gdma_copy_buffer ESP_OK True buf2 buf0 FB_SIZE ready_state = Returns s')"
proof -
  have h1: "ESP_ERR_NO_MEM \<noteq> ESP_OK"
    by (simp add: ESP_ERR_NO_MEM_def ESP_OK_def)
  have h2: "allocated ready_state buf2 = Some FB_SIZE" "allocated ready_state buf0 = Some FB_SIZE"
    by (simp_all add: ready_state_def buf_defs)
  have h3: "buf2 + FB_SIZE \<le> buf0 \<or> buf0 + FB_SIZE \<le> buf2"
    by (simp add: buf_defs fb_size_defs)
  have sem: "\<not> s_copy_done_sem ready_state"
    by (simp add: ready_state_def)
  from gdma_copy_buffer_fallback [OF h1 h2 order_refl order_refl h3, of False]
  obtain s' where r: "gdma_copy_buffer ESP_ERR_NO_MEM False buf2 buf0 FB_SIZE ready_state = Returns s'"
    and c: "\<forall>i<FB_SIZE. mem s' (buf2 + i) = mem ready_state (buf0 + i)"
    and f: "s_copy_done_sem s' = s_copy_done_sem ready_state" "\<not> s_copy_in_progress s'"
    and e: "\<not> s_copy_done_sem ready_state \<longrightarrow>
              gdma_copy_buffer ESP_OK True buf2 buf0 FB_SIZE ready_state = Returns s'"
    by blast
  have "(3::nat) < FB_SIZE"
    by (simp add: fb_size_defs)
  with c have "mem s' (buf2 + 3) = mem ready_state (buf0 + 3)"
    by blast
  then have "mem s' (buf2 + 3) = 0x11"
    by (simp add: ready_state_def buf_defs fb_size_defs)
  moreover have "mem ready_state (buf2 + 3) = 0"
    by (simp add: ready_state_def buf_defs fb_size_defs)
  ultimately show ?thesis
    using h1 h2 h3 sem r f e by auto
qed

text \<open>
  C7. For every state with three valid buffers, running the finalize sequence (copy Work
  to Back, wait, swap) twice in a row, with the copy engine refusing or finishing each
  job, returns both times, and the buffer tagged Front after the second run holds the
  same bytes as the buffer tagged Front after the first run: the bytes of Work.
\<close>

theorem finalize_frame_idempotent:
  assumes "buffers_ok s" and "ret1 \<noteq> ESP_OK \<or> done1" and "ret2 \<noteq> ESP_OK \<or> done2"
  shows "\<exists>s1 s2. finalize_frame ret1 done1 s = Returns s1 \<and>
           finalize_frame ret2 done2 s1 = Returns s2 \<and>
           (\<forall>i<FB_SIZE. mem s2 (front_buf s2 + i) = mem s1 (front_buf s1 + i)) \<and>
           (\<forall>i<FB_SIZE. mem s1 (front_buf s1 + i) = mem s (work_buf s + i))"
proof -
  let ?s1 = "s\<lparr>mem := (\<lambda>a. if back_buf s \<le> a \<and> a < back_buf s + FB_SIZE
                                then mem s (work_buf s + (a - back_buf s)) else mem s a),
                      s_copy_done_sem := (if ret1 \<noteq> ESP_OK then s_copy_done_sem s else False),
                      s_copy_in_progress := False,
                      front_buf := back_buf s, back_buf := front_buf s,
                      panel_fb := back_buf s\<rparr>"
  have 1: "finalize_frame ret1 done1 s = Returns ?s1"
    using assms(1,2) by (rule finalize_frame_ok)
  have ok1: "buffers_ok ?s1"
    using assms(1) by (auto simp add: buffers_ok_def fb_disjoint_def)
  note 2 = finalize_frame_ok [OF ok1 assms(3)]
  show ?thesis
    using assms(1)
    apply (simp add: 1 2)
    apply (auto simp add: buffers_ok_def fb_disjoint_def)
    done
qed

theorem finalize_frame_idempotent_witness:
  "buffers_ok ready_state \<and>
   (\<exists>s1 s2. finalize_frame ESP_OK True ready_state = Returns s1 \<and>
      finalize_frame ESP_ERR_NO_MEM False s1 = Returns s2 \<and>
      front_buf s1 = buf2 \<and> front_buf s2 = buf1 \<and>
      mem s2 (front_buf s2 + 5) = mem s1 (front_buf s1 + 5) \<and>
      mem s1 (front_buf s1 + 5) = 0x11)"
proof -
  have a1: "ESP_OK \<noteq> ESP_OK \<or> True" and a2: "ESP_ERR_NO_MEM \<noteq> ESP_OK \<or> False"
    by (simp_all add: ESP_ERR_NO_MEM_def ESP_OK_def)
  from finalize_frame_idempotent [OF buffers_ok_ready_state a1 a2]
  obtain s1 s2 where r: "finalize_frame ESP_OK True ready_state = Returns s1"
      "finalize_frame ESP_ERR_NO_MEM False s1 = Returns s2"
    and c: "\<forall>i<FB_SIZE. mem s2 (front_buf s2 + i) = mem s1 (front_buf s1 + i)"
      "\<forall>i<FB_SIZE. mem s1 (front_buf s1 + i) = mem ready_state (work_buf ready_state + i)"
    by blast
  have "(5::nat) < FB_SIZE"
    by (simp add: fb_size_defs)
  with c have "mem s2 (front_buf s2 + 5) = mem s1 (front_buf s1 + 5)"
      "mem s1 (front_buf s1 + 5) = mem ready_state (work_buf ready_state + 5)"
    by blast+
  moreover have "mem ready_state (work_buf ready_state + 5) = 0x11"
    by (simp add: ready_state_def buf_defs fb_size_defs)
  moreover have f1: "front_buf s1 = buf2"
    using r(1) finalize_frame_ok [OF buffers_ok_ready_state a1]
    by (auto simp add: ready_state_def)
  moreover have "front_buf s2 = buf1"
  proof -
    have "s1 = ready_state\<lparr>mem := (\<lambda>a. if back_buf ready_state \<le> a \<and> a < back_buf ready_state + FB_SIZE
                                then mem ready_state (work_buf ready_state + (a - back_buf ready_state))
                                else mem ready_state a),
                      s_copy_done_sem := (if ESP_OK \<noteq> ESP_OK then s_copy_done_sem ready_state else False),
                      s_copy_in_progress := False,
                      front_buf := back_buf ready_state, back_buf := front_buf ready_state,
                      panel_fb := back_buf ready_state\<rparr>"
      using r(1) finalize_frame_ok [OF buffers_ok_ready_state a1] by simp
    then have b: "back_buf s1 = buf1" and ok: "buffers_ok s1"
      using buffers_ok_ready_state
      by (auto simp add: ready_state_def buffers_ok_def fb_disjoint_def)
    from r(2) finalize_frame_ok [OF ok a2] b show ?thesis
      by auto
  qed
  ultimately show ?thesis
    using buffers_ok_ready_state r by auto
qed

subsection \<open>Tile writes\<close>

lemma tile_bounds:
  assumes "area_in_bounds area"
  shows "tile_x area + tile_width area \<le> 720" and "tile_y area + tile_height area \<le> 720"
    and "0 < tile_width area" and "0 < tile_height area"
    and "sint (x1 area) = int (tile_x area)" and "sint (y1 area) = int (tile_y area)"
    and "sint (x2 area) - sint (x1 area) + 1 = int (tile_width area)"
    and "sint (y2 area) - sint (y1 area) + 1 = int (tile_height area)"
  using assms
  unfolding area_in_bounds_def tile_x_def tile_y_def tile_width_def tile_height_def
    DISP_WIDTH_def DISP_HEIGHT_def
  by linarith+

lemma unat_small: "n < 2 ^ 32 \<Longrightarrow> unat (word_of_nat n :: 32 word) = n"
  by (simp add: unat_of_nat)

lemma row_in_tile:
  fixes y W H :: nat
  assumes "y < H"
  shows "2 * (y * W) + 2 * W \<le> W * H * 2"
proof -
  have "(y + 1) * W \<le> H * W"
    using assms by (intro mult_le_mono1) simp
  then show ?thesis
    by (simp add: algebra_simps)
qed

lemma memcpy_row_ok:
  assumes "allocated s base = Some sz" and "off + n \<le> sz" and "soff + n \<le> length tile"
  shows "memcpy_row base (int off) tile soff n s =
           Returns (s\<lparr>mem := (\<lambda>a. if base + off \<le> a \<and> a < base + off + n
                                then tile ! (soff + (a - (base + off))) else mem s a)\<rparr>)"
  using assms by (auto simp add: memcpy_row_def intro!: state.equality)

lemma flush_row_ok:
  assumes b: "area_in_bounds area"
    and len: "length color_map = tile_width area * tile_height area * 2"
    and al: "allocated s (work_buf s) = Some FB_SIZE"
    and y: "y < tile_height area"
  shows "flush_row area color_map (word_of_nat (tile_width area)) y s =
           Returns (s\<lparr>mem := (\<lambda>a.
              if work_buf s + row_offset area y \<le> a \<and>
                 a < work_buf s + row_offset area y + 2 * tile_width area
              then color_map ! (2 * (y * tile_width area) + (a - (work_buf s + row_offset area y)))
              else mem s a)\<rparr>)"
proof -
  note tb = tile_bounds [OF b]
  let ?w = "word_of_nat (tile_width area) :: 32 word"
  let ?row = "sint (y1 area) + int y"
  let ?dst = "?row * int DISP_WIDTH + sint (x1 area)"
  have "y * tile_width area \<le> 719 * 720"
    using tb(1,2) y by (intro mult_le_mono) simp_all
  then have yw: "y * tile_width area < 2 ^ 32"
    by simp
  have src: "2 * unat (word_of_nat y * ?w) = 2 * (y * tile_width area)"
    using yw unat_small [of "y * tile_width area"] by simp
  have n: "unat (?w * 2) = 2 * tile_width area"
    using tb(1) unat_small [of "tile_width area * 2"] by (simp add: mult.commute)
  have fits: "2 * (y * tile_width area) + 2 * tile_width area \<le> length color_map"
    using row_in_tile [OF y] len by simp
  have ranges: "int_range ?row \<and> int_range (?row * int DISP_WIDTH) \<and> int_range ?dst"
    using tb(1,2) y by (simp add: int_range_def tb(5,6) DISP_WIDTH_def)
  have off: "2 * ?dst = int (row_offset area y)"
    by (simp add: row_offset_def tb(5,6))
  have inb: "row_offset area y + 2 * tile_width area \<le> FB_SIZE"
    using tb(1,2) y by (simp add: row_offset_def fb_size_defs)
  have "flush_row area color_map ?w y s =
          memcpy_row (work_buf s) (2 * ?dst) color_map (2 * unat (word_of_nat y * ?w)) (unat (?w * 2)) s"
    unfolding flush_row_def Let_def using ranges by (simp only: simp_thms if_True)
  also have "\<dots> = memcpy_row (work_buf s) (int (row_offset area y)) color_map
                    (2 * (y * tile_width area)) (2 * tile_width area) s"
    by (simp only: off src n)
  also have "\<dots> = Returns (s\<lparr>mem := (\<lambda>a.
              if work_buf s + row_offset area y \<le> a \<and>
                 a < work_buf s + row_offset area y + 2 * tile_width area
              then color_map ! (2 * (y * tile_width area) + (a - (work_buf s + row_offset area y)))
              else mem s a)\<rparr>)"
    using al inb fits by (rule memcpy_row_ok)
  finally show ?thesis .
qed

lemma row_offset_step:
  assumes "area_in_bounds area" and "y < r"
  shows "row_offset area y + 2 * tile_width area \<le> row_offset area r"
proof -
  have "tile_x area + tile_width area \<le> 720"
    using assms(1) by (rule tile_bounds)
  moreover have "y + 1 \<le> r"
    using assms(2) by simp
  ultimately show ?thesis
    by (simp add: row_offset_def DISP_WIDTH_def)
qed

lemma flush_rows_ok:
  assumes b: "area_in_bounds area"
    and len: "length color_map = tile_width area * tile_height area * 2"
    and al: "allocated s (work_buf s) = Some FB_SIZE"
    and y: "y \<le> tile_height area"
  shows "\<exists>m. flush_rows area color_map (word_of_nat (tile_width area))
                (word_of_nat (tile_height area)) y s = Returns (s\<lparr>mem := m\<rparr>) \<and>
           (\<forall>r i. y \<le> r \<and> r < tile_height area \<and> i < 2 * tile_width area \<longrightarrow>
              m (work_buf s + row_offset area r + i) = color_map ! (2 * (r * tile_width area) + i)) \<and>
           (\<forall>a. (\<forall>r. y \<le> r \<and> r < tile_height area \<longrightarrow>
                   a < work_buf s + row_offset area r \<or>
                   work_buf s + row_offset area r + 2 * tile_width area \<le> a) \<longrightarrow>
              m a = mem s a)"
  using al y
proof (induction "tile_height area - y" arbitrary: y s)
  case 0
  note tb = tile_bounds [OF b]
  from 0 have "y = tile_height area"
    by simp
  moreover have "unat (word_of_nat (tile_height area) :: 32 word) = tile_height area"
    using tb(2) by (intro unat_small) simp
  ultimately have "flush_rows area color_map (word_of_nat (tile_width area))
      (word_of_nat (tile_height area)) y s = Returns (s\<lparr>mem := mem s\<rparr>)"
    by (subst flush_rows.simps) simp
  moreover have "\<forall>r. \<not> (y \<le> r \<and> r < tile_height area)"
    using \<open>y = tile_height area\<close> by simp
  ultimately show ?case
    by blast
next
  case (Suc n)
  note tb = tile_bounds [OF b]
  let ?W = "tile_width area"
  let ?H = "tile_height area"
  let ?B = "work_buf s"
  from Suc.hyps(2) have y: "y < ?H"
    by simp
  define m1 where "m1 = (\<lambda>a.
              if ?B + row_offset area y \<le> a \<and> a < ?B + row_offset area y + 2 * ?W
              then color_map ! (2 * (y * ?W) + (a - (?B + row_offset area y)))
              else mem s a)"
  let ?s1 = "s\<lparr>mem := m1\<rparr>"
  have row: "flush_row area color_map (word_of_nat ?W) y s = Returns ?s1"
    unfolding m1_def using b len Suc.prems(1) y by (rule flush_row_ok)
  have h: "unat (word_of_nat ?H :: 32 word) = ?H"
    using tb(2) by (intro unat_small) simp
  have small: "y + 1 < 2 ^ 31"
    using y tb(2) by simp
  have unfold: "flush_rows area color_map (word_of_nat ?W) (word_of_nat ?H) y s =
      flush_rows area color_map (word_of_nat ?W) (word_of_nat ?H) (y + 1) ?s1"
    using y small by (subst flush_rows.simps) (simp add: h row)
  have "n = ?H - (y + 1)" and "allocated ?s1 (work_buf ?s1) = Some FB_SIZE" and "y + 1 \<le> ?H"
    using Suc.hyps(2) Suc.prems(1) y by simp_all
  from Suc.hyps(1) [OF this]
  obtain m where run: "flush_rows area color_map (word_of_nat ?W) (word_of_nat ?H) (y + 1) ?s1 =
        Returns (?s1\<lparr>mem := m\<rparr>)"
    and rows: "\<And>r i. y + 1 \<le> r \<Longrightarrow> r < ?H \<Longrightarrow> i < 2 * ?W \<Longrightarrow>
        m (?B + row_offset area r + i) = color_map ! (2 * (r * ?W) + i)"
    and frame: "\<And>a. (\<forall>r. y + 1 \<le> r \<and> r < ?H \<longrightarrow>
                   a < ?B + row_offset area r \<or> ?B + row_offset area r + 2 * ?W \<le> a) \<Longrightarrow>
              m a = m1 a"
    by auto
  have res: "flush_rows area color_map (word_of_nat ?W) (word_of_nat ?H) y s = Returns (s\<lparr>mem := m\<rparr>)"
    using unfold run by simp
  have later: "\<And>r. y + 1 \<le> r \<Longrightarrow> row_offset area y + 2 * ?W \<le> row_offset area r"
    using b by (intro row_offset_step) simp_all
  have tile: "m (?B + row_offset area r + i) = color_map ! (2 * (r * ?W) + i)"
    if "y \<le> r" "r < ?H" "i < 2 * ?W" for r i
  proof (cases "r = y")
    case True
    have "m (?B + row_offset area y + i) = m1 (?B + row_offset area y + i)"
    proof (rule frame, intro allI impI)
      fix r' assume "y + 1 \<le> r' \<and> r' < ?H"
      then have "row_offset area y + 2 * ?W \<le> row_offset area r'"
        using later by simp
      with that(3) show "?B + row_offset area y + i < ?B + row_offset area r' \<or>
          ?B + row_offset area r' + 2 * ?W \<le> ?B + row_offset area y + i"
        by simp
    qed
    also have "\<dots> = color_map ! (2 * (y * ?W) + i)"
      using that(3) by (simp add: m1_def)
    finally show ?thesis
      using True by simp
  next
    case False
    with that show ?thesis
      by (intro rows) simp_all
  qed
  have outside: "m a = mem s a"
    if "\<forall>r. y \<le> r \<and> r < ?H \<longrightarrow> a < ?B + row_offset area r \<or> ?B + row_offset area r + 2 * ?W \<le> a"
    for a
  proof -
    have "m a = m1 a"
      using that by (intro frame) simp
    also have "\<dots> = mem s a"
      using that y by (auto simp add: m1_def)
    finally show ?thesis .
  qed
  from res tile outside show ?case
    by blast
qed

text \<open>
  What \<open>lvgl_flush_cb\<close> returns for a tile inside the display, in a state with three
  valid buffers, when the copy engine refuses or finishes the job of a last flush.
\<close>

lemma row_in_buffer:
  assumes "area_in_bounds area" and "r < tile_height area"
  shows "row_offset area r + 2 * tile_width area \<le> FB_SIZE"
  using tile_bounds(1,2) [OF assms(1)] assms(2) by (simp add: row_offset_def fb_size_defs)

lemma lvgl_flush_cb_result:
  assumes b: "area_in_bounds area"
    and len: "length color_map = tile_width area * tile_height area * 2"
    and ok: "buffers_ok s"
    and env: "\<not> is_last \<or> ret \<noteq> ESP_OK \<or> dma_done"
  shows "\<exists>s'. lvgl_flush_cb area color_map is_last ret dma_done s = Returns s' \<and>
           work_buf s' = work_buf s \<and> allocated s' = allocated s \<and>
           front_buf s' = (if is_last then back_buf s else front_buf s) \<and>
           back_buf s' = (if is_last then front_buf s else back_buf s) \<and>
           panel_fb s' = (if is_last then back_buf s else panel_fb s) \<and>
           flush_ready_calls s' = flush_ready_calls s + 1 \<and>
           (\<forall>r i. r < tile_height area \<and> i < 2 * tile_width area \<longrightarrow>
              mem s' (work_buf s + row_offset area r + i) =
                color_map ! (2 * (r * tile_width area) + i)) \<and>
           (is_last \<longrightarrow> (\<forall>k<FB_SIZE. mem s' (back_buf s + k) = mem s' (work_buf s + k))) \<and>
           (\<forall>a. (\<forall>r. r < tile_height area \<longrightarrow>
                   a < work_buf s + row_offset area r \<or>
                   work_buf s + row_offset area r + 2 * tile_width area \<le> a) \<and>
                (is_last \<longrightarrow> a < back_buf s \<or> back_buf s + FB_SIZE \<le> a) \<longrightarrow>
              mem s' a = mem s a)"
proof -
  note tb = tile_bounds [OF b]
  let ?W = "tile_width area"
  let ?H = "tile_height area"
  have al: "allocated s (work_buf s) = Some FB_SIZE"
    using ok by (simp add: buffers_ok_def)
  from flush_rows_ok [OF b len al, of 0]
  obtain m where run: "flush_rows area color_map (word_of_nat ?W) (word_of_nat ?H) 0 s =
        Returns (s\<lparr>mem := m\<rparr>)"
    and rows: "\<And>r i. r < ?H \<Longrightarrow> i < 2 * ?W \<Longrightarrow>
        m (work_buf s + row_offset area r + i) = color_map ! (2 * (r * ?W) + i)"
    and frame: "\<And>a. (\<forall>r. r < ?H \<longrightarrow> a < work_buf s + row_offset area r \<or>
                   work_buf s + row_offset area r + 2 * ?W \<le> a) \<Longrightarrow> m a = mem s a"
    by auto
  let ?s1 = "s\<lparr>mem := m\<rparr>"
  have w: "(word_of_int (sint (x2 area) - sint (x1 area) + 1) :: 32 word) = word_of_nat ?W"
    and h: "(word_of_int (sint (y2 area) - sint (y1 area) + 1) :: 32 word) = word_of_nat ?H"
    by (simp_all only: tb(7,8) of_int_of_nat_eq)
  have cb: "lvgl_flush_cb area color_map is_last ret dma_done s =
      and_then (if is_last then finalize_frame ret dma_done ?s1 else Returns ?s1)
        (\<lambda>s2. Returns (lv_disp_flush_ready s2))"
    unfolding lvgl_flush_cb_def Let_def w h run by simp
  show ?thesis
  proof (cases is_last)
    case False
    then have "lvgl_flush_cb area color_map is_last ret dma_done s =
        Returns (lv_disp_flush_ready ?s1)"
      using cb by simp
    with False rows frame show ?thesis
      by (simp add: lv_disp_flush_ready_def)
  next
    case True
    have ok1: "buffers_ok ?s1"
      using ok by (simp add: buffers_ok_def)
    have env': "ret \<noteq> ESP_OK \<or> dma_done"
      using env True by simp
    have dis: "back_buf s + FB_SIZE \<le> work_buf s \<or> work_buf s + FB_SIZE \<le> back_buf s"
      using ok by (auto simp add: buffers_ok_def fb_disjoint_def)
    define m2 where "m2 = (\<lambda>a. if back_buf s \<le> a \<and> a < back_buf s + FB_SIZE
                    then m (work_buf s + (a - back_buf s)) else m a)"
    have fin: "finalize_frame ret dma_done ?s1 =
        Returns (s\<lparr>mem := m2,
                   s_copy_done_sem := (if ret \<noteq> ESP_OK then s_copy_done_sem s else False),
                   s_copy_in_progress := False,
                   front_buf := back_buf s, back_buf := front_buf s,
                   panel_fb := back_buf s\<rparr>)"
      unfolding m2_def using finalize_frame_ok [OF ok1 env']
      by (auto intro!: state.equality)
    have res: "lvgl_flush_cb area color_map is_last ret dma_done s =
        Returns (lv_disp_flush_ready (s\<lparr>mem := m2,
                   s_copy_done_sem := (if ret \<noteq> ESP_OK then s_copy_done_sem s else False),
                   s_copy_in_progress := False,
                   front_buf := back_buf s, back_buf := front_buf s,
                   panel_fb := back_buf s\<rparr>))"
    proof -
      have "(if is_last then finalize_frame ret dma_done ?s1 else Returns ?s1) =
          finalize_frame ret dma_done ?s1"
        using True by simp
      then show ?thesis
        unfolding cb by (simp only: fin and_then_Returns)
    qed
    have tile: "m2 (work_buf s + row_offset area r + i) = color_map ! (2 * (r * ?W) + i)"
      if "r < ?H" "i < 2 * ?W" for r i
    proof -
      have "row_offset area r + i < FB_SIZE"
        using row_in_buffer [OF b that(1)] that(2) by simp
      with dis have "m2 (work_buf s + row_offset area r + i) = m (work_buf s + row_offset area r + i)"
        by (auto simp add: m2_def)
      with rows [OF that] show ?thesis
        by simp
    qed
    have copy: "m2 (back_buf s + k) = m2 (work_buf s + k)" if "k < FB_SIZE" for k
      using that dis by (auto simp add: m2_def)
    have outside: "m2 a = mem s a"
      if "\<forall>r. r < ?H \<longrightarrow> a < work_buf s + row_offset area r \<or>
                   work_buf s + row_offset area r + 2 * ?W \<le> a"
        and "a < back_buf s \<or> back_buf s + FB_SIZE \<le> a" for a
      using that frame [of a] by (auto simp add: m2_def)
    from True tile copy outside show ?thesis
      unfolding res by (simp add: lv_disp_flush_ready_def)
  qed
qed

text \<open>No access of the callback leaves a buffer, whatever the copy engine answers.\<close>

lemma finalize_frame_no_fault:
  assumes "buffers_ok s"
  shows "finalize_frame ret dma_done s \<noteq> Fault e"
proof -
  let ?s1 = "s\<lparr>s_copy_in_progress := True\<rparr>"
  have d: "back_buf s + FB_SIZE \<le> work_buf s \<or> work_buf s + FB_SIZE \<le> back_buf s"
    using assms by (auto simp add: buffers_ok_def fb_disjoint_def)
  have "\<exists>s2. memcpy (back_buf s) (work_buf s) FB_SIZE ?s1 = Returns s2"
    using assms d memcpy_ok [of ?s1 "back_buf s" FB_SIZE "work_buf s" FB_SIZE FB_SIZE]
    by (simp add: buffers_ok_def)
  then obtain s2 where m: "memcpy (back_buf s) (work_buf s) FB_SIZE ?s1 = Returns s2"
    by blast
  show ?thesis
    by (simp add: finalize_frame_def gdma_copy_buffer_def Let_def dma_transfer_def
        xSemaphoreTake_def m and_then_def)
qed

lemma lvgl_flush_cb_no_fault:
  assumes b: "area_in_bounds area"
    and len: "length color_map = tile_width area * tile_height area * 2"
    and ok: "buffers_ok s"
  shows "lvgl_flush_cb area color_map is_last ret dma_done s \<noteq> Fault e"
proof -
  note tb = tile_bounds [OF b]
  have al: "allocated s (work_buf s) = Some FB_SIZE"
    using ok by (simp add: buffers_ok_def)
  from flush_rows_ok [OF b len al, of 0]
  obtain m where run: "flush_rows area color_map (word_of_nat (tile_width area))
        (word_of_nat (tile_height area)) 0 s = Returns (s\<lparr>mem := m\<rparr>)"
    by auto
  let ?s1 = "s\<lparr>mem := m\<rparr>"
  have w: "(word_of_int (sint (x2 area) - sint (x1 area) + 1) :: 32 word) = word_of_nat (tile_width area)"
    and h: "(word_of_int (sint (y2 area) - sint (y1 area) + 1) :: 32 word) = word_of_nat (tile_height area)"
    by (simp_all only: tb(7,8) of_int_of_nat_eq)
  have cb: "lvgl_flush_cb area color_map is_last ret dma_done s =
      and_then (if is_last then finalize_frame ret dma_done ?s1 else Returns ?s1)
        (\<lambda>s2. Returns (lv_disp_flush_ready s2))"
    unfolding lvgl_flush_cb_def Let_def w h run by simp
  have "buffers_ok ?s1"
    using ok by (simp add: buffers_ok_def)
  then have "finalize_frame ret dma_done ?s1 \<noteq> Fault e"
    by (rule finalize_frame_no_fault)
  then show ?thesis
    unfolding cb by (cases "finalize_frame ret dma_done ?s1") (simp_all add: and_then_def)
qed

text \<open>
  C1. For every tile inside the display whose pixel data has width times height times 2
  bytes, \<open>lvgl_flush_cb\<close> returns, and then, for every row \<open>r\<close> of the tile, the
  bytes of the Work buffer from offset \<open>((y + r) * DISP_WIDTH + x) * 2\<close> on, as many
  as the row has, are the bytes of row \<open>r\<close> of the pixel data.
\<close>

theorem lvgl_flush_cb_writes_tile:
  assumes "area_in_bounds area"
    and "length color_map = tile_width area * tile_height area * 2"
    and "buffers_ok s"
    and "\<not> is_last \<or> ret \<noteq> ESP_OK \<or> dma_done"
  shows "\<exists>s'. lvgl_flush_cb area color_map is_last ret dma_done s = Returns s' \<and>
           work_buf s' = work_buf s \<and>
           (\<forall>r<tile_height area. \<forall>i<tile_width area * 2.
              mem s' (work_buf s' + ((tile_y area + r) * DISP_WIDTH + tile_x area) * 2 + i) =
                color_map ! (r * (tile_width area * 2) + i))"
proof -
  from lvgl_flush_cb_result [OF assms]
  obtain s' where r: "lvgl_flush_cb area color_map is_last ret dma_done s = Returns s'"
    and w: "work_buf s' = work_buf s"
    and t: "\<And>r i. r < tile_height area \<Longrightarrow> i < 2 * tile_width area \<Longrightarrow>
              mem s' (work_buf s + row_offset area r + i) =
                color_map ! (2 * (r * tile_width area) + i)"
    by blast
  have "mem s' (work_buf s' + ((tile_y area + r) * DISP_WIDTH + tile_x area) * 2 + i) =
      color_map ! (r * (tile_width area * 2) + i)"
    if "r < tile_height area" "i < tile_width area * 2" for r i
    using t [of r i] that by (simp add: w row_offset_def mult.commute mult.left_commute)
  with r w show ?thesis
    by blast
qed

theorem lvgl_flush_cb_writes_tile_witness:
  "area_in_bounds small_tile \<and>
   length [1, 2, 3, 4, 5, 6, 7, 8 :: byte] = tile_width small_tile * tile_height small_tile * 2 \<and>
   buffers_ok ready_state \<and>
   (\<exists>s'. lvgl_flush_cb small_tile [1, 2, 3, 4, 5, 6, 7, 8] True ESP_OK True ready_state = Returns s' \<and>
      work_buf s' = buf0 \<and> mem s' (buf0 + 14420) = 1 \<and> mem s' (buf0 + 15863) = 8)"
proof -
  have g: "tile_x small_tile = 10" "tile_y small_tile = 10" "tile_width small_tile = 2"
      "tile_height small_tile = 2"
    by (simp_all add: small_tile_def tile_x_def tile_y_def tile_width_def tile_height_def)
  have b: "area_in_bounds small_tile"
    by (simp add: small_tile_def area_in_bounds_def DISP_WIDTH_def DISP_HEIGHT_def)
  have len: "length [1, 2, 3, 4, 5, 6, 7, 8 :: byte] = tile_width small_tile * tile_height small_tile * 2"
    by (simp add: g)
  have env: "\<not> True \<or> ESP_OK \<noteq> ESP_OK \<or> True"
    by simp
  from lvgl_flush_cb_writes_tile [OF b len buffers_ok_ready_state env]
  obtain s' where r: "lvgl_flush_cb small_tile [1, 2, 3, 4, 5, 6, 7, 8] True ESP_OK True ready_state = Returns s'"
    and w: "work_buf s' = work_buf ready_state"
    and t: "\<And>r i. r < 2 \<Longrightarrow> i < 4 \<Longrightarrow>
        mem s' (work_buf s' + ((10 + r) * DISP_WIDTH + 10) * 2 + i) =
          [1, 2, 3, 4, 5, 6, 7, 8 :: byte] ! (r * 4 + i)"
    by (auto simp add: g)
  have w': "work_buf s' = buf0"
    using w by (simp add: ready_state_def)
  have "mem s' (buf0 + 14420) = 1"
    using t [of 0 0] by (simp add: w' DISP_WIDTH_def)
  moreover have "mem s' (buf0 + 15863) = 8"
    using t [of 1 3] by (simp add: w' DISP_WIDTH_def add.commute)
  ultimately show ?thesis
    using b len buffers_ok_ready_state r w' by blast
qed

text \<open>
  C8. For every tile inside the display, the tile touching the last pixel included, every
  byte offset the callback writes at in the Work buffer is below the buffer size
  \<open>720 * 720 * 2\<close>, and no access of the callback leaves the block its pointer belongs
  to, whatever the copy engine answers. When the call returns (the flush is not the last
  of its frame, or the copy engine refuses or finishes the job), a byte of the store that
  differs afterwards lies in one of the per-row ranges of the tile, inside the Work
  buffer, or, after a last flush, in the Back buffer that received the copy.
\<close>

theorem lvgl_flush_cb_in_bounds:
  assumes "area_in_bounds area"
    and "length color_map = tile_width area * tile_height area * 2"
    and "buffers_ok s"
  shows "FB_SIZE = 720 * 720 * 2 \<and>
         (\<forall>r<tile_height area. \<forall>i<tile_width area * 2.
            ((tile_y area + r) * DISP_WIDTH + tile_x area) * 2 + i < FB_SIZE) \<and>
         (\<forall>e. lvgl_flush_cb area color_map is_last ret dma_done s \<noteq> Fault e) \<and>
         (\<not> is_last \<or> ret \<noteq> ESP_OK \<or> dma_done \<longrightarrow>
            (\<exists>s'. lvgl_flush_cb area color_map is_last ret dma_done s = Returns s' \<and>
               (\<forall>a. mem s' a \<noteq> mem s a \<longrightarrow>
                  (\<exists>r<tile_height area.
                     work_buf s + ((tile_y area + r) * DISP_WIDTH + tile_x area) * 2 \<le> a \<and>
                     a < work_buf s + ((tile_y area + r) * DISP_WIDTH + tile_x area) * 2 +
                           tile_width area * 2 \<and>
                     a < work_buf s + FB_SIZE) \<or>
                  (is_last \<and> back_buf s \<le> a \<and> a < back_buf s + FB_SIZE))))"
proof -
  have size: "FB_SIZE = 720 * 720 * 2"
    by (simp add: fb_size_defs)
  have fit: "row_offset area r + 2 * tile_width area \<le> FB_SIZE" if "r < tile_height area" for r
    using assms(1) that by (rule row_in_buffer)
  then have below: "\<forall>r<tile_height area. \<forall>i<tile_width area * 2.
      ((tile_y area + r) * DISP_WIDTH + tile_x area) * 2 + i < FB_SIZE"
    by (fastforce simp add: row_offset_def)
  have sound: "\<forall>e. lvgl_flush_cb area color_map is_last ret dma_done s \<noteq> Fault e"
    using assms by (simp add: lvgl_flush_cb_no_fault)
  have changed: "\<exists>s'. lvgl_flush_cb area color_map is_last ret dma_done s = Returns s' \<and>
      (\<forall>a. mem s' a \<noteq> mem s a \<longrightarrow>
         (\<exists>r<tile_height area.
            work_buf s + ((tile_y area + r) * DISP_WIDTH + tile_x area) * 2 \<le> a \<and>
            a < work_buf s + ((tile_y area + r) * DISP_WIDTH + tile_x area) * 2 +
                  tile_width area * 2 \<and>
            a < work_buf s + FB_SIZE) \<or>
         (is_last \<and> back_buf s \<le> a \<and> a < back_buf s + FB_SIZE))"
    if env: "\<not> is_last \<or> ret \<noteq> ESP_OK \<or> dma_done"
  proof -
    from lvgl_flush_cb_result [OF assms env]
    obtain s' where r: "lvgl_flush_cb area color_map is_last ret dma_done s = Returns s'"
      and f: "\<And>a. (\<forall>r. r < tile_height area \<longrightarrow>
                     a < work_buf s + row_offset area r \<or>
                     work_buf s + row_offset area r + 2 * tile_width area \<le> a) \<Longrightarrow>
                  (is_last \<longrightarrow> a < back_buf s \<or> back_buf s + FB_SIZE \<le> a) \<Longrightarrow>
                mem s' a = mem s a"
      by blast
    have "(\<exists>r<tile_height area.
              work_buf s + row_offset area r \<le> a \<and>
              a < work_buf s + row_offset area r + tile_width area * 2 \<and>
              a < work_buf s + FB_SIZE) \<or>
          (is_last \<and> back_buf s \<le> a \<and> a < back_buf s + FB_SIZE)"
      if ch: "mem s' a \<noteq> mem s a" for a
    proof (rule ccontr)
      assume n: "\<not> ?thesis"
      have "a < work_buf s + row_offset area r \<or>
          work_buf s + row_offset area r + 2 * tile_width area \<le> a"
        if "r < tile_height area" for r
      proof -
        have "\<not> (work_buf s + row_offset area r \<le> a \<and>
              a < work_buf s + row_offset area r + tile_width area * 2 \<and>
              a < work_buf s + FB_SIZE)"
          using n that by blast
        with fit [OF that] show ?thesis
          by linarith
      qed
      moreover have "is_last \<longrightarrow> a < back_buf s \<or> back_buf s + FB_SIZE \<le> a"
        using n by auto
      ultimately have "mem s' a = mem s a"
        by (intro f) blast+
      with ch show False
        by simp
    qed
    then have "\<forall>a. mem s' a \<noteq> mem s a \<longrightarrow>
                 (\<exists>r<tile_height area.
                    work_buf s + ((tile_y area + r) * DISP_WIDTH + tile_x area) * 2 \<le> a \<and>
                    a < work_buf s + ((tile_y area + r) * DISP_WIDTH + tile_x area) * 2 +
                          tile_width area * 2 \<and>
                    a < work_buf s + FB_SIZE) \<or>
                 (is_last \<and> back_buf s \<le> a \<and> a < back_buf s + FB_SIZE)"
      unfolding row_offset_def by blast
    with r show ?thesis
      by blast
  qed
  from size below sound changed show ?thesis
    by blast
qed

theorem lvgl_flush_cb_in_bounds_witness:
  "area_in_bounds corner_tile \<and>
   length [1, 2, 3, 4 :: byte] = tile_width corner_tile * tile_height corner_tile * 2 \<and>
   buffers_ok ready_state \<and>
   ((tile_y corner_tile + 0) * DISP_WIDTH + tile_x corner_tile) * 2 + 3 = 1036799 \<and>
   ((tile_y corner_tile + 0) * DISP_WIDTH + tile_x corner_tile) * 2 + 3 < FB_SIZE \<and>
   lvgl_flush_cb corner_tile [1, 2, 3, 4] False ESP_OK False ready_state \<noteq> Fault Out_of_bounds \<and>
   (\<exists>s'. lvgl_flush_cb corner_tile [1, 2, 3, 4] False ESP_OK False ready_state = Returns s' \<and>
      mem s' (buf0 + FB_SIZE) = mem ready_state (buf0 + FB_SIZE))"
proof -
  have g: "tile_x corner_tile = 718" "tile_y corner_tile = 719" "tile_width corner_tile = 2"
      "tile_height corner_tile = 1"
    by (simp_all add: corner_tile_def tile_x_def tile_y_def tile_width_def tile_height_def)
  have b: "area_in_bounds corner_tile"
    by (simp add: corner_tile_def area_in_bounds_def DISP_WIDTH_def DISP_HEIGHT_def)
  have len: "length [1, 2, 3, 4 :: byte] = tile_width corner_tile * tile_height corner_tile * 2"
    by (simp add: g)
  have env: "\<not> False \<or> ESP_OK \<noteq> ESP_OK \<or> False"
    by simp
  from lvgl_flush_cb_in_bounds [OF b len buffers_ok_ready_state, of False ESP_OK False] env
  obtain s' where below: "\<forall>r<tile_height corner_tile. \<forall>i<tile_width corner_tile * 2.
        ((tile_y corner_tile + r) * DISP_WIDTH + tile_x corner_tile) * 2 + i < FB_SIZE"
    and nf: "lvgl_flush_cb corner_tile [1, 2, 3, 4] False ESP_OK False ready_state \<noteq> Fault Out_of_bounds"
    and r: "lvgl_flush_cb corner_tile [1, 2, 3, 4] False ESP_OK False ready_state = Returns s'"
    and f: "\<And>a. mem s' a \<noteq> mem ready_state a \<Longrightarrow>
        (\<exists>r<tile_height corner_tile.
            work_buf ready_state + ((tile_y corner_tile + r) * DISP_WIDTH + tile_x corner_tile) * 2 \<le> a \<and>
            a < work_buf ready_state + ((tile_y corner_tile + r) * DISP_WIDTH + tile_x corner_tile) * 2 +
                  tile_width corner_tile * 2 \<and>
            a < work_buf ready_state + FB_SIZE) \<or>
        (False \<and> back_buf ready_state \<le> a \<and> a < back_buf ready_state + FB_SIZE)"
    by blast
  have "(0::nat) < tile_height corner_tile" and "(3::nat) < tile_width corner_tile * 2"
    by (simp_all add: g)
  with below have lt: "((tile_y corner_tile + 0) * DISP_WIDTH + tile_x corner_tile) * 2 + 3 < FB_SIZE"
    by blast
  have eq: "((tile_y corner_tile + 0) * DISP_WIDTH + tile_x corner_tile) * 2 + 3 = 1036799"
    by (simp add: g DISP_WIDTH_def)
  have "mem s' (buf0 + FB_SIZE) = mem ready_state (buf0 + FB_SIZE)"
  proof (rule ccontr)
    assume "mem s' (buf0 + FB_SIZE) \<noteq> mem ready_state (buf0 + FB_SIZE)"
    from f [OF this] show False
      by (simp add: ready_state_def)
  qed
  with b len buffers_ok_ready_state lt eq nf r show ?thesis
    by blast
qed

text \<open>
  C10. For every tile inside the display, a flush that is not the last of its frame
  returns and leaves the three pointers \<open>work_buf\<close>, \<open>back_buf\<close> and \<open>front_buf\<close>
  and every byte of the Back and Front buffers as they were; every byte of the store
  outside the per-row ranges of the tile in the Work buffer is unchanged; and
  \<open>lv_disp_flush_ready\<close> has been called once.
\<close>

theorem lvgl_flush_cb_not_last_frame:
  assumes "area_in_bounds area"
    and "length color_map = tile_width area * tile_height area * 2"
    and "buffers_ok s"
  shows "\<exists>s'. lvgl_flush_cb area color_map False ret dma_done s = Returns s' \<and>
           work_buf s' = work_buf s \<and> back_buf s' = back_buf s \<and> front_buf s' = front_buf s \<and>
           (\<forall>i<FB_SIZE. mem s' (back_buf s + i) = mem s (back_buf s + i) \<and>
                        mem s' (front_buf s + i) = mem s (front_buf s + i)) \<and>
           (\<forall>a. (\<forall>r<tile_height area.
                    a < work_buf s + ((tile_y area + r) * DISP_WIDTH + tile_x area) * 2 \<or>
                    work_buf s + ((tile_y area + r) * DISP_WIDTH + tile_x area) * 2 +
                      tile_width area * 2 \<le> a) \<longrightarrow>
                mem s' a = mem s a) \<and>
           flush_ready_calls s' = flush_ready_calls s + 1"
proof -
  have env: "\<not> False \<or> ret \<noteq> ESP_OK \<or> dma_done"
    by simp
  from lvgl_flush_cb_result [OF assms env]
  obtain s' where r: "lvgl_flush_cb area color_map False ret dma_done s = Returns s'"
    and p: "work_buf s' = work_buf s" "back_buf s' = back_buf s" "front_buf s' = front_buf s"
      "flush_ready_calls s' = flush_ready_calls s + 1"
    and f: "\<And>a. (\<forall>r. r < tile_height area \<longrightarrow>
                   a < work_buf s + row_offset area r \<or>
                   work_buf s + row_offset area r + 2 * tile_width area \<le> a) \<Longrightarrow>
              mem s' a = mem s a"
    by auto
  have fit: "row_offset area r + 2 * tile_width area \<le> FB_SIZE" if "r < tile_height area" for r
    using assms(1) that by (rule row_in_buffer)
  have other: "mem s' (q + i) = mem s (q + i)"
    if "fb_disjoint (work_buf s) q" "i < FB_SIZE" for q i
  proof (rule f, intro allI impI)
    fix r assume "r < tile_height area"
    from fit [OF this] that
    show "q + i < work_buf s + row_offset area r \<or>
        work_buf s + row_offset area r + 2 * tile_width area \<le> q + i"
      by (auto simp add: fb_disjoint_def)
  qed
  have "fb_disjoint (work_buf s) (back_buf s)" "fb_disjoint (work_buf s) (front_buf s)"
    using assms(3) by (simp_all add: buffers_ok_def)
  with other have "\<forall>i<FB_SIZE. mem s' (back_buf s + i) = mem s (back_buf s + i) \<and>
                        mem s' (front_buf s + i) = mem s (front_buf s + i)"
    by blast
  moreover have "\<forall>a. (\<forall>r<tile_height area.
                    a < work_buf s + ((tile_y area + r) * DISP_WIDTH + tile_x area) * 2 \<or>
                    work_buf s + ((tile_y area + r) * DISP_WIDTH + tile_x area) * 2 +
                      tile_width area * 2 \<le> a) \<longrightarrow>
                mem s' a = mem s a"
    using f unfolding row_offset_def by (simp add: mult.commute)
  ultimately show ?thesis
    using r p by blast
qed

theorem lvgl_flush_cb_not_last_frame_witness:
  "area_in_bounds small_tile \<and>
   length [1, 2, 3, 4, 5, 6, 7, 8 :: byte] = tile_width small_tile * tile_height small_tile * 2 \<and>
   buffers_ok ready_state \<and>
   (\<exists>s'. lvgl_flush_cb small_tile [1, 2, 3, 4, 5, 6, 7, 8] False ESP_OK False ready_state = Returns s' \<and>
      work_buf s' = buf0 \<and> back_buf s' = buf2 \<and> front_buf s' = buf1 \<and>
      mem s' (buf2 + 9) = mem ready_state (buf2 + 9) \<and>
      mem s' (buf1 + 9) = mem ready_state (buf1 + 9) \<and>
      mem s' (buf0 + 14419) = 0x11 \<and>
      flush_ready_calls s' = 1)"
proof -
  have g: "tile_x small_tile = 10" "tile_y small_tile = 10" "tile_width small_tile = 2"
      "tile_height small_tile = 2"
    by (simp_all add: small_tile_def tile_x_def tile_y_def tile_width_def tile_height_def)
  have b: "area_in_bounds small_tile"
    by (simp add: small_tile_def area_in_bounds_def DISP_WIDTH_def DISP_HEIGHT_def)
  have len: "length [1, 2, 3, 4, 5, 6, 7, 8 :: byte] = tile_width small_tile * tile_height small_tile * 2"
    by (simp add: g)
  from lvgl_flush_cb_not_last_frame [OF b len buffers_ok_ready_state, of ESP_OK False]
  obtain s' where r: "lvgl_flush_cb small_tile [1, 2, 3, 4, 5, 6, 7, 8] False ESP_OK False ready_state = Returns s'"
    and p: "work_buf s' = work_buf ready_state" "back_buf s' = back_buf ready_state"
      "front_buf s' = front_buf ready_state"
      "flush_ready_calls s' = flush_ready_calls ready_state + 1"
    and o: "\<forall>i<FB_SIZE. mem s' (back_buf ready_state + i) = mem ready_state (back_buf ready_state + i) \<and>
        mem s' (front_buf ready_state + i) = mem ready_state (front_buf ready_state + i)"
    and f: "\<And>a. (\<forall>r<tile_height small_tile.
          a < work_buf ready_state + ((tile_y small_tile + r) * DISP_WIDTH + tile_x small_tile) * 2 \<or>
          work_buf ready_state + ((tile_y small_tile + r) * DISP_WIDTH + tile_x small_tile) * 2 +
            tile_width small_tile * 2 \<le> a) \<Longrightarrow> mem s' a = mem ready_state a"
    by blast
  have p': "work_buf s' = buf0" "back_buf s' = buf2" "front_buf s' = buf1" "flush_ready_calls s' = 1"
    using p by (simp_all add: ready_state_def)
  have "(9::nat) < FB_SIZE"
    by (simp add: fb_size_defs)
  with o have "mem s' (buf2 + 9) = mem ready_state (buf2 + 9)"
      "mem s' (buf1 + 9) = mem ready_state (buf1 + 9)"
    by (auto simp add: ready_state_def)
  moreover have "mem s' (buf0 + 14419) = mem ready_state (buf0 + 14419)"
    by (rule f) (simp add: g DISP_WIDTH_def ready_state_def)
  then have "mem s' (buf0 + 14419) = 0x11"
    by (simp add: ready_state_def fb_size_defs)
  ultimately show ?thesis
    using b len buffers_ok_ready_state r p' by blast
qed

lemma word_cat_ff: "word_cat (0xFF::8 word) (0xFF::8 word) = (0xFFFF::16 word)"
  by (simp add: word_cat_eq)

lemma scenario_tile_facts:
  "area_in_bounds \<lparr>x1 = 10, y1 = 10, x2 = 109, y2 = 59\<rparr>"
  "tile_x \<lparr>x1 = 10, y1 = 10, x2 = 109, y2 = 59\<rparr> = 10"
  "tile_y \<lparr>x1 = 10, y1 = 10, x2 = 109, y2 = 59\<rparr> = 10"
  "tile_width \<lparr>x1 = 10, y1 = 10, x2 = 109, y2 = 59\<rparr> = 100"
  "tile_height \<lparr>x1 = 10, y1 = 10, x2 = 109, y2 = 59\<rparr> = 50"
  by (simp_all add: area_in_bounds_def tile_x_def tile_y_def tile_width_def tile_height_def
      DISP_WIDTH_def DISP_HEIGHT_def)

text \<open>
  C3 (scenario A). The buffers have \<open>720 * 720 * 2 = 1036800\<close> bytes each. Writing a
  tile of 100 by 50 pixels at (10, 10) whose pixels are all \<open>0xFFFF\<close>, as the last
  flush of a frame, with the copy engine refusing or finishing the job, returns; then
  every pixel of rows 10 to 59, columns 10 to 109 of the Work buffer is \<open>0xFFFF\<close>, the
  buffer tagged Front is the one that was tagged Back, and it holds \<open>0xFFFF\<close> over the
  same region.
\<close>

theorem lvgl_flush_cb_scenario_a:
  assumes "buffers_ok s" and "ret \<noteq> ESP_OK \<or> dma_done"
  shows "FB_SIZE = 1036800 \<and>
         (\<exists>s'. lvgl_flush_cb \<lparr>x1 = 10, y1 = 10, x2 = 109, y2 = 59\<rparr>
                  (replicate (100 * 50 * 2) 0xFF) True ret dma_done s = Returns s' \<and>
            front_buf s' = back_buf s \<and>
            (\<forall>row \<in> {10..59}. \<forall>col \<in> {10..109}.
               fb_pixel s' (work_buf s') row col = 0xFFFF \<and>
               fb_pixel s' (front_buf s') row col = 0xFFFF))"
proof -
  let ?area = "\<lparr>x1 = 10, y1 = 10, x2 = 109, y2 = 59\<rparr> :: lv_area_t"
  let ?tile = "replicate (100 * 50 * 2) (0xFF :: byte)"
  note sf = scenario_tile_facts
  have size: "FB_SIZE = 1036800"
    by (simp add: fb_size_defs)
  have len: "length ?tile = tile_width ?area * tile_height ?area * 2"
    by (simp add: sf)
  have env: "\<not> True \<or> ret \<noteq> ESP_OK \<or> dma_done"
    using assms(2) by simp
  from lvgl_flush_cb_result [OF sf(1) len assms(1) env]
  obtain s' where r: "lvgl_flush_cb ?area ?tile True ret dma_done s = Returns s'"
    and p: "work_buf s' = work_buf s" "front_buf s' = back_buf s"
    and t: "\<And>r i. r < 50 \<Longrightarrow> i < 200 \<Longrightarrow>
              mem s' (work_buf s + row_offset ?area r + i) = ?tile ! (2 * (r * 100) + i)"
    and c: "\<And>k. k < FB_SIZE \<Longrightarrow> mem s' (back_buf s + k) = mem s' (work_buf s + k)"
    by (auto simp add: sf)
  have work: "mem s' (work_buf s + ((row * 720 + col) * 2 + b)) = 0xFF"
    if "10 \<le> row" "row \<le> 59" "10 \<le> col" "col \<le> 109" "b < 2" for row col b
  proof -
    have a: "row_offset ?area (row - 10) + ((col - 10) * 2 + b) = (row * 720 + col) * 2 + b"
      using that by (simp add: row_offset_def sf DISP_WIDTH_def)
    have "row - 10 < 50" and i: "(col - 10) * 2 + b < 200"
      using that by simp_all
    then have "mem s' (work_buf s + row_offset ?area (row - 10) + ((col - 10) * 2 + b)) =
        ?tile ! (2 * ((row - 10) * 100) + ((col - 10) * 2 + b))"
      by (rule t)
    also have "\<dots> = 0xFF"
      using that by (intro nth_replicate) simp
    finally show ?thesis
      using a by (simp add: add.assoc)
  qed
  have front: "mem s' (back_buf s + ((row * 720 + col) * 2 + b)) = 0xFF"
    if "10 \<le> row" "row \<le> 59" "10 \<le> col" "col \<le> 109" "b < 2" for row col b
  proof -
    have "(row * 720 + col) * 2 + b < FB_SIZE"
      using that by (simp add: size)
    then show ?thesis
      using c work [OF that] by simp
  qed
  have "fb_pixel s' (work_buf s') row col = 0xFFFF \<and> fb_pixel s' (front_buf s') row col = 0xFFFF"
    if "row \<in> {10..59}" "col \<in> {10..109}" for row col
  proof -
    from that have b: "10 \<le> row" "row \<le> 59" "10 \<le> col" "col \<le> 109"
      by simp_all
    show ?thesis
      using work [OF b, of 0] work [OF b, of 1] front [OF b, of 0] front [OF b, of 1]
      by (simp add: fb_pixel_def Let_def p DISP_WIDTH_def DISP_BPP_def add.assoc word_cat_ff)
  qed
  with size r p show ?thesis
    by blast
qed

theorem lvgl_flush_cb_scenario_a_witness:
  "buffers_ok ready_state \<and> fb_pixel ready_state buf2 59 109 = 0 \<and>
   (\<exists>s'. lvgl_flush_cb \<lparr>x1 = 10, y1 = 10, x2 = 109, y2 = 59\<rparr>
            (replicate (100 * 50 * 2) 0xFF) True ESP_OK True ready_state = Returns s' \<and>
      front_buf s' = buf2 \<and>
      fb_pixel s' (work_buf s') 10 10 = 0xFFFF \<and>
      fb_pixel s' (front_buf s') 59 109 = 0xFFFF)"
proof -
  have env: "ESP_OK \<noteq> ESP_OK \<or> True"
    by simp
  from lvgl_flush_cb_scenario_a [OF buffers_ok_ready_state env]
  obtain s' where r: "lvgl_flush_cb \<lparr>x1 = 10, y1 = 10, x2 = 109, y2 = 59\<rparr>
            (replicate (100 * 50 * 2) 0xFF) True ESP_OK True ready_state = Returns s'"
    and f: "front_buf s' = back_buf ready_state"
    and px: "\<forall>row \<in> {10..59}. \<forall>col \<in> {10..109}.
               fb_pixel s' (work_buf s') row col = 0xFFFF \<and>
               fb_pixel s' (front_buf s') row col = 0xFFFF"
    by blast
  have "(10::nat) \<in> {10..59}" "(10::nat) \<in> {10..109}" "(59::nat) \<in> {10..59}" "(109::nat) \<in> {10..109}"
    by simp_all
  with px have "fb_pixel s' (work_buf s') 10 10 = 0xFFFF" "fb_pixel s' (front_buf s') 59 109 = 0xFFFF"
    by blast+
  moreover have "front_buf s' = buf2"
    using f by (simp add: ready_state_def)
  moreover have "fb_pixel ready_state buf2 59 109 = 0"
    by (simp add: fb_pixel_def ready_state_def buf_defs fb_size_defs word_cat_eq)
  ultimately show ?thesis
    using buffers_ok_ready_state r by blast
qed

subsection \<open>The model at inputs outside the preconditions\<close>

text \<open>
  The checks of the model are live. A tile that is one pixel too wide for the last row
  makes the row copy run past the end of the Work buffer; a tile with one byte too few
  makes it read past the end of the pixel data; and a last flush whose copy job is
  accepted but never finished leaves the task waiting on the semaphore for ever.
\<close>

lemmas run_defs = lvgl_flush_cb_def Let_def flush_rows.simps flush_row_def memcpy_row_def
  ready_state_def buf_defs fb_size_defs int_range_def small_tile_def
  finalize_frame_def gdma_copy_buffer_def dma_transfer_def memcpy_def xSemaphoreTake_def
  gdma_copy_done_cb_def ESP_OK_def and_then_def

lemma lvgl_flush_cb_tile_past_the_end:
  "lvgl_flush_cb \<lparr>x1 = 719, y1 = 719, x2 = 720, y2 = 719\<rparr> [1, 2, 3, 4] False ESP_OK True
     ready_state = Fault Out_of_bounds"
  by (simp add: run_defs)

lemma lvgl_flush_cb_short_tile:
  "lvgl_flush_cb small_tile [1, 2, 3, 4, 5, 6, 7] False ESP_OK True ready_state =
     Fault Out_of_bounds"
  by (simp add: run_defs)

lemma lvgl_flush_cb_copy_never_done:
  "lvgl_flush_cb small_tile [1, 2, 3, 4, 5, 6, 7, 8] True ESP_OK False ready_state = Blocked"
  by (simp add: run_defs)

end
